theory Spec2Isabelle
  imports Main
begin

section \<open>Values and event data\<close>

text \<open>
  The WebSocket handlers of \<^verbatim>\<open>backend/app.py\<close> receive one argument \<^verbatim>\<open>data\<close>, the
  decoded JSON object of the event, and read it only through \<^verbatim>\<open>data.get\<close>. The field
  values modelled are the scalar JSON values: null, booleans, integers and strings.
\<close>

datatype pyval = PyNone | PyBool bool | PyInt int | PyStr string

type_synonym sid = string

type_synonym data = "string \<rightharpoonup> pyval"

text \<open>\<^verbatim>\<open>data.get(k)\<close>: the stored value, \<^verbatim>\<open>None\<close> when the key is absent.\<close>

definition dict_get :: "data \<Rightarrow> string \<Rightarrow> pyval" where
  "dict_get d k = (case d k of None \<Rightarrow> PyNone | Some v \<Rightarrow> v)"

text \<open>\<^verbatim>\<open>data.get(k, default)\<close>: the default only replaces an absent key, not a stored null.\<close>

definition dict_get_default :: "data \<Rightarrow> string \<Rightarrow> pyval \<Rightarrow> pyval" where
  "dict_get_default d k dflt = (case d k of None \<Rightarrow> dflt | Some v \<Rightarrow> v)"

text \<open>
  Formatting a value inside an f-string (\<^verbatim>\<open>f'teachers_{class_id}'\<close>) is \<^verbatim>\<open>str\<close> of
  the value.
\<close>

fun digits :: "nat \<Rightarrow> string" where
  "digits n =
     (if n < 10 then [char_of (48 + n)]
      else digits (n div 10) @ [char_of (48 + n mod 10)])"

declare digits.simps [simp del]

definition str_int :: "int \<Rightarrow> string" where
  "str_int i = (if i < 0 then CHR ''-'' # digits (nat (- i)) else digits (nat i))"

fun py_str :: "pyval \<Rightarrow> string" where
  "py_str PyNone = ''None''"
| "py_str (PyBool b) = (if b then ''True'' else ''False'')"
| "py_str (PyInt i) = str_int i"
| "py_str (PyStr s) = s"

section \<open>The host library: rooms and emit\<close>

text \<open>
  Room membership is not kept by the application: \<^verbatim>\<open>join_room\<close>, \<^verbatim>\<open>leave_room\<close> and
  \<^verbatim>\<open>emit\<close> are imported from Flask-SocketIO, whose server keeps, per namespace, a
  dictionary from room name to the sessions in it. The definitions of this section model
  that library for the default namespace, as far as the handlers use it:
  \<^item> a connecting session is entered into the room \<^verbatim>\<open>None\<close> (all sessions) and into a
    room named by its own session id;
  \<^item> the library takes a session for connected when it is in the room \<^verbatim>\<open>None\<close>, and
    runs no handler for an event of a session that is not;
  \<^item> \<^verbatim>\<open>join_room(room)\<close> and \<^verbatim>\<open>leave_room(room)\<close> add and remove the session of
    the request (\<^verbatim>\<open>flask.request.sid\<close>), the room \<^verbatim>\<open>None\<close> being a room like any
    other;
  \<^item> a disconnecting session that is in the room \<^verbatim>\<open>None\<close> is removed from every room,
    after the application's \<^verbatim>\<open>disconnect\<close> handler has run; for a session that is
    not, the disconnect does nothing;
  \<^item> \<^verbatim>\<open>emit\<close> addresses the room given by \<^verbatim>\<open>room=\<close>; without a room it addresses
    the sender alone, unless \<^verbatim>\<open>broadcast=True\<close>; a room that is falsy in Python
    addresses the room \<^verbatim>\<open>None\<close>; \<^verbatim>\<open>skip_sid\<close> is a session id that is compared
    with each recipient's session id.
  A room with no session in it and a room that does not exist are the same thing here:
  \<open>rooms\<close> maps such a name to the empty set.
\<close>

record server =
  rooms :: "pyval \<Rightarrow> sid set"

definition initial :: server where
  "initial = \<lparr>rooms = (\<lambda>_. {})\<rparr>"

text \<open>
  Room names are dictionary keys. Python hashes and compares \<^verbatim>\<open>True\<close> and \<^verbatim>\<open>False\<close>
  as the integers 1 and 0, so they name the same rooms.
\<close>

fun room_key :: "pyval \<Rightarrow> pyval" where
  "room_key (PyBool b) = PyInt (if b then 1 else 0)"
| "room_key v = v"

definition participants :: "server \<Rightarrow> pyval \<Rightarrow> sid set" where
  "participants s room = rooms s (room_key room)"

definition enter_room :: "sid \<Rightarrow> pyval \<Rightarrow> server \<Rightarrow> server" where
  "enter_room c room s =
     s\<lparr>rooms := (rooms s)(room_key room := insert c (rooms s (room_key room)))\<rparr>"

definition join_room :: "sid \<Rightarrow> pyval \<Rightarrow> server \<Rightarrow> server" where
  "join_room c room s = enter_room c room s"

definition leave_room :: "sid \<Rightarrow> pyval \<Rightarrow> server \<Rightarrow> server" where
  "leave_room c room s =
     s\<lparr>rooms := (rooms s)(room_key room := rooms s (room_key room) - {c})\<rparr>"

text \<open>The library's \<^verbatim>\<open>is_connected\<close>: the session is in the room \<^verbatim>\<open>None\<close>.\<close>

definition is_connected :: "server \<Rightarrow> sid \<Rightarrow> bool" where
  "is_connected s c = (c \<in> rooms s PyNone)"

definition sio_connect :: "sid \<Rightarrow> server \<Rightarrow> server" where
  "sio_connect c s = enter_room c (PyStr c) (enter_room c PyNone s)"

text \<open>
  The library's part of a disconnect: the session leaves every room it is in, unless it
  is not in the room \<^verbatim>\<open>None\<close>, in which case the library returns at once.
\<close>

definition sio_disconnect :: "sid \<Rightarrow> server \<Rightarrow> server" where
  "sio_disconnect c s =
     (if is_connected s c then s\<lparr>rooms := (\<lambda>r. rooms s r - {c})\<rparr> else s)"

text \<open>The rooms a session is in (the library's \<^verbatim>\<open>rooms()\<close>).\<close>

definition joined_rooms :: "server \<Rightarrow> sid \<Rightarrow> pyval set" where
  "joined_rooms s c = {r. c \<in> rooms s r}"

text \<open>
  An outbound envelope with the audience it is delivered to. The payload keeps the
  order of the dictionary literal in the handler.
\<close>

record delivery =
  event :: string
  payload :: "(string \<times> pyval) list"
  recipients :: "sid set"

text \<open>
  The sessions \<^verbatim>\<open>skip_sid\<close> excludes: the library tests \<^verbatim>\<open>sid not in [skip_sid]\<close>
  for each participant, and a session id is a string, so only a string can exclude one.
\<close>

fun skipped :: "pyval \<Rightarrow> sid set" where
  "skipped (PyStr c) = {c}"
| "skipped v = {}"

text \<open>The values Python takes for false in \<^verbatim>\<open>x or y\<close>.\<close>

fun falsy :: "pyval \<Rightarrow> bool" where
  "falsy PyNone = True"
| "falsy (PyBool b) = (\<not> b)"
| "falsy (PyInt i) = (i = 0)"
| "falsy (PyStr x) = (x = [])"

text \<open>
  \<^verbatim>\<open>emit(event, payload, room=room, broadcast=broadcast, skip_sid=skip_sid)\<close> called
  while handling a request of session \<open>c\<close>; \<^verbatim>\<open>include_self\<close> keeps its default
  \<^verbatim>\<open>True\<close> in every call of the application. The library resolves the addressee in
  two steps. The function \<^verbatim>\<open>emit\<close> replaces a room that \<^verbatim>\<open>is None\<close> by the sender's
  session id unless \<^verbatim>\<open>broadcast\<close> is set (\<open>to\<close>). The method \<^verbatim>\<open>SocketIO.emit\<close> it then
  calls computes \<^verbatim>\<open>to or room\<close> with no \<^verbatim>\<open>room\<close> left, which is \<^verbatim>\<open>None\<close> for every
  falsy \<open>to\<close> (\<open>to'\<close>), and the envelope goes to the sessions in the room \<open>to'\<close>.
\<close>

definition emit ::
  "sid \<Rightarrow> string \<Rightarrow> (string \<times> pyval) list \<Rightarrow> pyval \<Rightarrow> bool \<Rightarrow> pyval \<Rightarrow> server \<Rightarrow> delivery" where
  "emit c ev pl room broadcast skip_sid s =
     (let to = (if room = PyNone \<and> \<not> broadcast then PyStr c else room);
          to' = (if falsy to then PyNone else to)
      in \<lparr>event = ev, payload = pl, recipients = participants s to' - skipped skip_sid\<rparr>)"

section \<open>The handlers of register_socketio_events\<close>

text \<open>
  Each handler takes the clock reading \<open>now\<close> (\<^verbatim>\<open>datetime.now().isoformat()\<close>), the
  session \<open>c\<close> of the request and the server state, and returns the new state, the
  envelopes emitted and the lines printed. A printed line is recorded by its kind and the
  values interpolated into it.
\<close>

datatype log_line =
    LogConnected
  | LogDisconnected
  | LogJoined pyval pyval pyval
  | LogLeft pyval pyval
  | LogPollUpdated pyval
  | LogAlert pyval

type_synonym outcome = "server \<times> delivery list \<times> log_line list"

definition handle_connect :: "string \<Rightarrow> sid \<Rightarrow> server \<Rightarrow> outcome" where
  "handle_connect now c s =
     (s,
      [emit c ''connected''
         [(''message'', PyStr ''Connected to AMEP server''), (''timestamp'', PyStr now)]
         PyNone False PyNone s],
      [LogConnected])"

definition handle_disconnect :: "sid \<Rightarrow> server \<Rightarrow> outcome" where
  "handle_disconnect c s = (s, [], [LogDisconnected])"

definition handle_join_class :: "string \<Rightarrow> sid \<Rightarrow> data \<Rightarrow> server \<Rightarrow> outcome" where
  "handle_join_class now c d s =
     (let class_id = dict_get d ''class_id'';
          user_id = dict_get d ''user_id'';
          user_role = dict_get_default d ''role'' (PyStr ''student'');
          s' = join_room c class_id s
      in (s',
          [emit c ''user_joined''
             [(''user_id'', user_id), (''role'', user_role), (''timestamp'', PyStr now)]
             class_id False (PyBool True) s'],
          [LogJoined user_id user_role class_id]))"

definition handle_leave_class :: "sid \<Rightarrow> data \<Rightarrow> server \<Rightarrow> outcome" where
  "handle_leave_class c d s =
     (let class_id = dict_get d ''class_id'';
          user_id = dict_get d ''user_id''
      in (leave_room c class_id s, [], [LogLeft user_id class_id]))"

definition handle_poll_response :: "string \<Rightarrow> sid \<Rightarrow> data \<Rightarrow> server \<Rightarrow> outcome" where
  "handle_poll_response now c d s =
     (let poll_id = dict_get d ''poll_id'';
          class_id = dict_get d ''class_id''
      in (s,
          [emit c ''poll_updated''
             [(''poll_id'', poll_id),
              (''total_responses'', dict_get_default d ''total_responses'' (PyInt 0)),
              (''timestamp'', PyStr now)]
             class_id True PyNone s],
          [LogPollUpdated poll_id]))"

definition handle_engagement_alert :: "string \<Rightarrow> sid \<Rightarrow> data \<Rightarrow> server \<Rightarrow> outcome" where
  "handle_engagement_alert now c d s =
     (let class_id = dict_get d ''class_id'';
          student_id = dict_get d ''student_id'';
          alert_type = dict_get d ''alert_type''
      in (s,
          [emit c ''engagement_alert_received''
             [(''student_id'', student_id),
              (''alert_type'', alert_type),
              (''severity'', dict_get d ''severity''),
              (''message'', dict_get d ''message''),
              (''timestamp'', PyStr now)]
             (PyStr (''teachers_'' @ py_str class_id)) False PyNone s],
          [LogAlert student_id]))"

section \<open>Dispatch of inbound events\<close>

datatype inbound =
    Connect
  | Disconnect
  | JoinClass data
  | LeaveClass data
  | PollResponseSubmitted data
  | EngagementAlert data

text \<open>
  The library enters a connecting session into its rooms before the \<^verbatim>\<open>connect\<close> handler
  runs, and clears a disconnecting session's rooms after the \<^verbatim>\<open>disconnect\<close> handler has
  run.
\<close>

fun trigger_event :: "string \<Rightarrow> sid \<Rightarrow> inbound \<Rightarrow> server \<Rightarrow> outcome" where
  "trigger_event now c Connect s = handle_connect now c (sio_connect c s)"
| "trigger_event now c Disconnect s =
     (case handle_disconnect c s of (s', out, lg) \<Rightarrow> (sio_disconnect c s', out, lg))"
| "trigger_event now c (JoinClass d) s = handle_join_class now c d s"
| "trigger_event now c (LeaveClass d) s = handle_leave_class c d s"
| "trigger_event now c (PollResponseSubmitted d) s = handle_poll_response now c d s"
| "trigger_event now c (EngagementAlert d) s = handle_engagement_alert now c d s"

text \<open>
  A session id is given to one connection, so a session that is connected does not
  connect again. For every other event, the disconnect included, the library looks the
  session up in the room \<^verbatim>\<open>None\<close> and, when it is not there, returns without running
  any handler.
\<close>

fun deliverable :: "sid \<Rightarrow> inbound \<Rightarrow> server \<Rightarrow> bool" where
  "deliverable c Connect s = (\<not> is_connected s c)"
| "deliverable c ev s = is_connected s c"

definition dispatch :: "string \<Rightarrow> sid \<Rightarrow> inbound \<Rightarrow> server \<Rightarrow> outcome" where
  "dispatch now c ev s =
     (if deliverable c ev s then trigger_event now c ev s else (s, [], []))"

fun run :: "(string \<times> sid \<times> inbound) list \<Rightarrow> server \<Rightarrow> server" where
  "run [] s = s"
| "run ((now, c, ev) # es) s = run es (fst (dispatch now c ev s))"

section \<open>Notions used to state the properties\<close>

text \<open>No room holds a session that is not connected.\<close>

definition no_stale :: "server \<Rightarrow> bool" where
  "no_stale s = (\<forall>r c. c \<in> rooms s r \<longrightarrow> is_connected s c)"

text \<open>
  The event is not a \<^verbatim>\<open>leave_class\<close> whose \<^verbatim>\<open>class_id\<close> is absent or null: such an
  event makes the handler call \<^verbatim>\<open>leave_room(None)\<close>.
\<close>

fun names_room :: "inbound \<Rightarrow> bool" where
  "names_room (LeaveClass d) = (dict_get d ''class_id'' \<noteq> PyNone)"
| "names_room ev = True"

text \<open>The event \<open>d\<close> with the field \<open>k\<close> set to \<open>v\<close> when \<open>d\<close> does not carry it.\<close>

definition with_default :: "data \<Rightarrow> string \<Rightarrow> pyval \<Rightarrow> data" where
  "with_default d k v = (case d k of None \<Rightarrow> d(k \<mapsto> v) | Some _ \<Rightarrow> d)"

text \<open>The value an envelope carries in a field of its payload.\<close>

definition field :: "string \<Rightarrow> delivery \<Rightarrow> pyval option" where
  "field k e = map_of (payload e) k"

section \<open>Concrete states\<close>

text \<open>Two sessions are connected; \<open>A\<close> has joined \<open>class1\<close> as a student.\<close>

definition one_joined :: server where
  "one_joined =
     run [(''t0'', ''A'', Connect), (''t1'', ''B'', Connect),
          (''t2'', ''A'', JoinClass [''class_id'' \<mapsto> PyStr ''class1'',
             ''user_id'' \<mapsto> PyStr ''u1'', ''role'' \<mapsto> PyStr ''student''])]
       initial"

text \<open>
  Scenarios A and B of the specification: \<open>A\<close> has joined \<open>class1\<close> as a student and
  \<open>B\<close> as a teacher.
\<close>

definition both_joined :: server where
  "both_joined =
     run [(''t0'', ''A'', Connect), (''t1'', ''B'', Connect),
          (''t2'', ''A'', JoinClass [''class_id'' \<mapsto> PyStr ''class1'',
             ''user_id'' \<mapsto> PyStr ''u1'', ''role'' \<mapsto> PyStr ''student'']),
          (''t3'', ''B'', JoinClass [''class_id'' \<mapsto> PyStr ''class1'',
             ''user_id'' \<mapsto> PyStr ''u2'', ''role'' \<mapsto> PyStr ''teacher''])]
       initial"

text \<open>
  \<open>A\<close> has joined \<open>class1\<close> and then sent \<^verbatim>\<open>leave_class\<close> without \<^verbatim>\<open>class_id\<close>.
\<close>

definition left_unnamed :: server where
  "left_unnamed =
     run [(''t0'', ''A'', Connect),
          (''t1'', ''A'', JoinClass [''class_id'' \<mapsto> PyStr ''class1'',
             ''user_id'' \<mapsto> PyStr ''u1'', ''role'' \<mapsto> PyStr ''student'']),
          (''t2'', ''A'', LeaveClass [''user_id'' \<mapsto> PyStr ''u1''])]
       initial"

text \<open>
  Three sessions are connected. \<open>A\<close> and \<open>B\<close> have joined the class whose identifier
  is the empty string, and \<open>A\<close> has then sent \<^verbatim>\<open>leave_class\<close> without \<^verbatim>\<open>class_id\<close>.
\<close>

definition unnamed_class :: server where
  "unnamed_class =
     run [(''t0'', ''A'', Connect), (''t1'', ''B'', Connect), (''t2'', ''C'', Connect),
          (''t3'', ''A'', JoinClass [''class_id'' \<mapsto> PyStr '''',
             ''user_id'' \<mapsto> PyStr ''u1'', ''role'' \<mapsto> PyStr ''student'']),
          (''t4'', ''B'', JoinClass [''class_id'' \<mapsto> PyStr '''',
             ''user_id'' \<mapsto> PyStr ''u2'', ''role'' \<mapsto> PyStr ''student'']),
          (''t5'', ''A'', LeaveClass [''user_id'' \<mapsto> PyStr ''u1''])]
       initial"

section \<open>Basic facts\<close>

lemmas lib_defs = participants_def enter_room_def join_room_def leave_room_def
  sio_connect_def sio_disconnect_def emit_def initial_def is_connected_def dispatch_def

lemmas handler_defs = handle_connect_def handle_disconnect_def handle_join_class_def
  handle_leave_class_def handle_poll_response_def handle_engagement_alert_def
  dict_get_def dict_get_default_def

lemma room_key_None [simp]:
  "(room_key v = PyNone) = (v = PyNone)" "(PyNone = room_key v) = (v = PyNone)"
  by (cases v; simp)+

lemma dict_get_with_default [simp]:
  "dict_get (with_default d k PyNone) k = dict_get d k"
  by (simp add: dict_get_def with_default_def split: option.splits)

lemma dict_get_with_default_other [simp]:
  "k' \<noteq> k \<Longrightarrow> dict_get (with_default d k v) k' = dict_get d k'"
  by (simp add: dict_get_def with_default_def split: option.splits)

lemma dict_get_default_with_default [simp]:
  "dict_get_default (with_default d k v) k v = dict_get_default d k v"
  by (simp add: dict_get_default_def with_default_def split: option.splits)

lemma dict_get_default_with_default_other [simp]:
  "k' \<noteq> k \<Longrightarrow> dict_get_default (with_default d k v) k' w = dict_get_default d k' w"
  by (simp add: dict_get_default_def with_default_def split: option.splits)

section \<open>Disconnect and stale membership\<close>

lemma dispatch_no_stale:
  "no_stale s \<Longrightarrow> names_room ev \<Longrightarrow> no_stale (fst (dispatch now c ev s))"
  by (cases ev) (auto simp: no_stale_def lib_defs handler_defs Let_def)

lemma run_no_stale:
  "no_stale s \<Longrightarrow> \<forall>e \<in> set es. names_room (snd (snd e)) \<Longrightarrow> no_stale (run es s)"
proof (induction es arbitrary: s)
  case Nil
  then show ?case by simp
next
  case (Cons e es)
  obtain now c ev where e: "e = (now, c, ev)" by (cases e)
  from Cons.prems have "no_stale (fst (dispatch now c ev s))"
    by (simp add: e dispatch_no_stale)
  with Cons.prems show ?case
    unfolding e by (simp add: Cons.IH)
qed

lemma initial_no_stale: "no_stale initial"
  by (simp add: no_stale_def initial_def)

text \<open>
  C3, as stated, fails: the claim is that after the disconnect event of a connection the
  connection is in none of the rooms it had joined. \<open>A\<close> joins \<open>class1\<close> and sends
  \<^verbatim>\<open>leave_class\<close> without \<^verbatim>\<open>class_id\<close>, so that \<^verbatim>\<open>handle_leave_class\<close> calls
  \<^verbatim>\<open>leave_room(None)\<close>. The disconnect of \<open>A\<close> then clears nothing, and \<open>A\<close> is still
  a member of \<open>class1\<close>.
\<close>

theorem disconnect_clears_rooms_counterexample:
  "''A'' \<in> participants (fst (dispatch ''t3'' ''A'' Disconnect left_unnamed)) (PyStr ''class1'')
   \<and> \<not> is_connected (fst (dispatch ''t3'' ''A'' Disconnect left_unnamed)) ''A''"
  by (simp add: left_unnamed_def lib_defs handler_defs Let_def)

text \<open>
  C3, amended. \<^verbatim>\<open>handle_disconnect\<close> changes no room and emits nothing. After the
  disconnect event of a connection that the library still holds in its room of all
  sessions, the connection is in no room, whatever rooms it had joined. In every state
  reached from the initial one by events none of which is a \<^verbatim>\<open>leave_class\<close> without
  \<^verbatim>\<open>class_id\<close>, every session found in a room is connected.
\<close>

theorem disconnect_clears_registered_session:
  "fst (handle_disconnect c s) = s
   \<and> fst (snd (handle_disconnect c s)) = []
   \<and> (is_connected s c \<longrightarrow> (\<forall>r. c \<notin> participants (fst (dispatch now c Disconnect s)) r))
   \<and> ((\<forall>e \<in> set es. names_room (snd (snd e))) \<longrightarrow>
        (\<forall>r c'. c' \<in> participants (run es initial) r \<longrightarrow> is_connected (run es initial) c'))"
proof -
  have "no_stale (run es initial)" if "\<forall>e \<in> set es. names_room (snd (snd e))"
    using that by (rule run_no_stale [OF initial_no_stale])
  then have "(\<forall>e \<in> set es. names_room (snd (snd e))) \<longrightarrow>
        (\<forall>r c'. c' \<in> participants (run es initial) r \<longrightarrow> is_connected (run es initial) c')"
    by (simp add: no_stale_def participants_def)
  then show ?thesis
    by (simp add: lib_defs handler_defs)
qed

text \<open>Scenario C of the specification, with a second member \<open>B\<close> who stays.\<close>

theorem disconnect_clears_registered_session_witness:
  "is_connected
     (run [(''t0'', ''A'', Connect), (''t1'', ''B'', Connect),
           (''t2'', ''A'', JoinClass [''class_id'' \<mapsto> PyStr ''class1'', ''user_id'' \<mapsto> PyStr ''u1'']),
           (''t3'', ''B'', JoinClass [''class_id'' \<mapsto> PyStr ''class1'', ''user_id'' \<mapsto> PyStr ''u2''])]
        initial) ''A''
   \<and> participants
       (run [(''t0'', ''A'', Connect), (''t1'', ''B'', Connect),
             (''t2'', ''A'', JoinClass [''class_id'' \<mapsto> PyStr ''class1'', ''user_id'' \<mapsto> PyStr ''u1'']),
             (''t3'', ''B'', JoinClass [''class_id'' \<mapsto> PyStr ''class1'', ''user_id'' \<mapsto> PyStr ''u2'']),
             (''t4'', ''A'', Disconnect)]
          initial) (PyStr ''class1'') = {''B''}
   \<and> is_connected
       (run [(''t0'', ''A'', Connect), (''t1'', ''B'', Connect),
             (''t2'', ''A'', JoinClass [''class_id'' \<mapsto> PyStr ''class1'', ''user_id'' \<mapsto> PyStr ''u1'']),
             (''t3'', ''B'', JoinClass [''class_id'' \<mapsto> PyStr ''class1'', ''user_id'' \<mapsto> PyStr ''u2'']),
             (''t4'', ''A'', Disconnect)]
          initial) ''B''"
  using disconnect_clears_registered_session [where c = "''A''" and now = "''t4''"
      and s = "run [(''t0'', ''A'', Connect), (''t1'', ''B'', Connect),
           (''t2'', ''A'', JoinClass [''class_id'' \<mapsto> PyStr ''class1'', ''user_id'' \<mapsto> PyStr ''u1'']),
           (''t3'', ''B'', JoinClass [''class_id'' \<mapsto> PyStr ''class1'', ''user_id'' \<mapsto> PyStr ''u2''])]
        initial"
      and es = "[(''t0'', ''A'', Connect), (''t1'', ''B'', Connect),
        (''t2'', ''A'', JoinClass [''class_id'' \<mapsto> PyStr ''class1'', ''user_id'' \<mapsto> PyStr ''u1'']),
        (''t3'', ''B'', JoinClass [''class_id'' \<mapsto> PyStr ''class1'', ''user_id'' \<mapsto> PyStr ''u2'']),
        (''t4'', ''A'', Disconnect)]"]
  by (auto simp add: lib_defs handler_defs Let_def)

section \<open>Audiences\<close>

lemma one_joined_class1: "participants one_joined (PyStr ''class1'') = {''A''}"
  by (auto simp add: one_joined_def lib_defs handler_defs Let_def)

lemma both_joined_class1: "participants both_joined (PyStr ''class1'') = {''A'', ''B''}"
  by (auto simp add: both_joined_def lib_defs handler_defs Let_def)

text \<open>
  C1. The claim: an \<^verbatim>\<open>engagement_alert\<close> on a class reaches exactly the teachers who
  joined that class. \<^verbatim>\<open>handle_engagement_alert\<close> addresses the room
  \<^verbatim>\<open>teachers_<class_id>\<close>, and \<^verbatim>\<open>handle_join_class\<close> enters a session into the room
  \<^verbatim>\<open>class_id\<close> only, whatever its role. In scenario B the teacher \<open>B\<close> is a member of
  \<open>class1\<close>, and the alert on \<open>class1\<close> is delivered to nobody.
\<close>

theorem engagement_alert_reaches_no_teacher:
  "''B'' \<in> participants both_joined (PyStr ''class1'')
   \<and> map recipients (fst (snd (handle_engagement_alert ''t4'' ''A''
        [''class_id'' \<mapsto> PyStr ''class1'', ''student_id'' \<mapsto> PyStr ''s5'',
         ''alert_type'' \<mapsto> PyStr ''inactivity'', ''severity'' \<mapsto> PyStr ''high'',
         ''message'' \<mapsto> PyStr ''idle'']
        both_joined))) = [{}]"
  by (simp add: both_joined_def lib_defs handler_defs Let_def)

text \<open>
  C4. The claim: \<^verbatim>\<open>user_joined\<close> reaches every member of the room except the sender.
  \<^verbatim>\<open>handle_join_class\<close> passes \<^verbatim>\<open>skip_sid=True\<close>, which is no session id, so nobody is
  skipped: when \<open>B\<close> joins \<open>class1\<close>, where \<open>A\<close> already is, the envelope goes to both
  \<open>A\<close> and \<open>B\<close>, and the audience has as many sessions as the room.
\<close>

theorem user_joined_reaches_sender:
  "case handle_join_class ''t2'' ''B''
          [''class_id'' \<mapsto> PyStr ''class1'', ''user_id'' \<mapsto> PyStr ''u2'',
           ''role'' \<mapsto> PyStr ''teacher'']
          one_joined of
     (s', out, lg) \<Rightarrow>
        participants s' (PyStr ''class1'') = {''A'', ''B''}
        \<and> map recipients out = [{''A'', ''B''}]
        \<and> map (\<lambda>e. card (recipients e)) out = [2]"
  by (auto simp add: one_joined_def lib_defs handler_defs Let_def)

lemma unnamed_class_members: "participants unnamed_class (PyStr '''') = {''A'', ''B''}"
  by (auto simp add: unnamed_class_def lib_defs handler_defs Let_def)

text \<open>
  C5, as stated, fails: the claim is that \<^verbatim>\<open>poll_updated\<close> is delivered to all current
  members of the class of the event. In the class whose identifier is the empty string,
  with members \<open>A\<close> and \<open>B\<close>, a \<^verbatim>\<open>poll_response_submitted\<close> sent by the member \<open>B\<close>
  is delivered to \<open>B\<close> and to \<open>C\<close>, who is not a member, and not to the member \<open>A\<close>: the
  falsy room makes the library address the room \<^verbatim>\<open>None\<close>, which \<open>A\<close> has left.
\<close>

theorem poll_updated_members_counterexample:
  "participants unnamed_class (PyStr '''') = {''A'', ''B''}
   \<and> map recipients (fst (snd (dispatch ''t6'' ''B''
        (PollResponseSubmitted [''poll_id'' \<mapsto> PyStr ''p1'', ''class_id'' \<mapsto> PyStr '''',
           ''total_responses'' \<mapsto> PyInt 7])
        unnamed_class))) = [{''B'', ''C''}]"
  by (auto simp add: unnamed_class_def lib_defs handler_defs Let_def)

text \<open>
  C5, amended. A \<^verbatim>\<open>poll_response_submitted\<close> event on class \<open>R\<close> sent by a member \<open>c\<close>
  of \<open>R\<close> produces one \<^verbatim>\<open>poll_updated\<close> envelope whose \<^verbatim>\<open>poll_id\<close> and
  \<^verbatim>\<open>total_responses\<close> are the inbound values. When \<open>R\<close> is not falsy (not null,
  \<^verbatim>\<open>False\<close>, 0 or the empty string) the envelope is delivered to the members of \<open>R\<close>,
  the sender among them; when \<open>R\<close> is falsy it is delivered to the sessions of the room
  \<^verbatim>\<open>None\<close>, the connected sessions, instead.
\<close>

theorem poll_updated_audience:
  assumes "d ''class_id'' = Some R" and "d ''poll_id'' = Some p"
    and "d ''total_responses'' = Some n" and "c \<in> participants s R"
  shows "case handle_poll_response now c d s of (s', out, lg) \<Rightarrow>
           map event out = [''poll_updated'']
           \<and> map (field ''poll_id'') out = [Some p]
           \<and> map (field ''total_responses'') out = [Some n]
           \<and> map recipients out = [participants s (if falsy R then PyNone else R)]
           \<and> (\<not> falsy R \<longrightarrow> (\<forall>e \<in> set out. c \<in> recipients e))"
  using assms by (simp add: lib_defs handler_defs field_def Let_def)

text \<open>Scenario A of the specification.\<close>

theorem poll_updated_audience_witness:
  "case handle_poll_response ''t4'' ''A''
          [''poll_id'' \<mapsto> PyStr ''p1'', ''class_id'' \<mapsto> PyStr ''class1'',
           ''total_responses'' \<mapsto> PyInt 7]
          both_joined of
     (s', out, lg) \<Rightarrow>
        map event out = [''poll_updated'']
        \<and> map recipients out = [{''A'', ''B''}]
        \<and> map (field ''poll_id'') out = [Some (PyStr ''p1'')]
        \<and> map (field ''total_responses'') out = [Some (PyInt 7)]"
  using poll_updated_audience [where
      d = "[''poll_id'' \<mapsto> PyStr ''p1'', ''class_id'' \<mapsto> PyStr ''class1'',
            ''total_responses'' \<mapsto> PyInt 7]"
      and R = "PyStr ''class1''" and p = "PyStr ''p1''" and n = "PyInt 7"
      and c = "''A''" and s = both_joined and now = "''t4''"]
  by (simp add: both_joined_class1 split: prod.splits)

section \<open>Events with missing fields\<close>




section \<open>Joining and leaving\<close>

text \<open>
  C6, as stated, fails: the claim is that \<^verbatim>\<open>join_class\<close> followed by \<^verbatim>\<open>leave_class\<close>
  restores the members of the room from every starting state. \<open>A\<close> is already a member
  of \<open>class1\<close>; after joining again and leaving, \<open>A\<close> is no longer one.
\<close>

theorem join_then_leave_counterexample:
  "participants
     (fst (handle_leave_class ''A'' [''class_id'' \<mapsto> PyStr ''class1'', ''user_id'' \<mapsto> PyStr ''u1'']
        (fst (handle_join_class ''t3'' ''A''
           [''class_id'' \<mapsto> PyStr ''class1'', ''user_id'' \<mapsto> PyStr ''u1'', ''role'' \<mapsto> PyStr ''student'']
           one_joined))))
     (PyStr ''class1'')
   \<noteq> participants one_joined (PyStr ''class1'')"
  by (simp add: one_joined_def lib_defs handler_defs Let_def)

text \<open>
  C6, amended. \<^verbatim>\<open>join_class\<close> followed by \<^verbatim>\<open>leave_class\<close> of the same session on the
  same room \<open>R\<close> leaves the members of \<open>R\<close> as they were before the join, less that
  session; they are as before the join exactly when the session was not a member.
\<close>

theorem join_then_leave_members:
  assumes "dict_get d ''class_id'' = R" and "dict_get d' ''class_id'' = R"
  shows "participants (fst (handle_leave_class c d' (fst (handle_join_class now c d s)))) R
           = participants s R - {c}
         \<and> (participants (fst (handle_leave_class c d' (fst (handle_join_class now c d s)))) R
                = participants s R) = (c \<notin> participants s R)"
  using assms by (auto simp add: handle_join_class_def handle_leave_class_def lib_defs Let_def)

theorem join_then_leave_members_witness:
  "''B'' \<notin> participants one_joined (PyStr ''class1'')
   \<and> participants
        (fst (handle_leave_class ''B'' [''class_id'' \<mapsto> PyStr ''class1'', ''user_id'' \<mapsto> PyStr ''u2'']
           (fst (handle_join_class ''t3'' ''B''
              [''class_id'' \<mapsto> PyStr ''class1'', ''user_id'' \<mapsto> PyStr ''u2'', ''role'' \<mapsto> PyStr ''teacher'']
              one_joined))))
        (PyStr ''class1'')
      = {''A''}"
  using join_then_leave_members [of
      "[''class_id'' \<mapsto> PyStr ''class1'', ''user_id'' \<mapsto> PyStr ''u2'', ''role'' \<mapsto> PyStr ''teacher'']"
      "PyStr ''class1''"
      "[''class_id'' \<mapsto> PyStr ''class1'', ''user_id'' \<mapsto> PyStr ''u2'']"
      "''B''" "''t3''" one_joined]
  by (simp add: one_joined_class1 dict_get_def)

text \<open>
  C7. Handling the same \<^verbatim>\<open>join_class\<close> event, or the same \<^verbatim>\<open>leave_class\<close> event,
  twice in a row gives the state that handling it once gives. After the second join
  the number of members of every room and the set of rooms of the session are those
  after the first, and the room joined counts once among the session's rooms.
\<close>

theorem join_leave_idempotent:
  "fst (handle_join_class now' c d (fst (handle_join_class now c d s)))
     = fst (handle_join_class now c d s)
   \<and> fst (handle_leave_class c d (fst (handle_leave_class c d s)))
     = fst (handle_leave_class c d s)
   \<and> card (participants (fst (handle_join_class now' c d (fst (handle_join_class now c d s)))) R)
     = card (participants (fst (handle_join_class now c d s)) R)
   \<and> joined_rooms (fst (handle_join_class now' c d (fst (handle_join_class now c d s)))) c
     = joined_rooms (fst (handle_join_class now c d s)) c
   \<and> card (joined_rooms (fst (handle_join_class now' c d (fst (handle_join_class now c d s)))) c
           \<inter> {room_key (dict_get d ''class_id'')}) = 1"
proof -
  have j: "fst (handle_join_class now' c d (fst (handle_join_class now c d s)))
     = fst (handle_join_class now c d s)"
    by (simp add: handle_join_class_def lib_defs Let_def)
  have l: "fst (handle_leave_class c d (fst (handle_leave_class c d s)))
     = fst (handle_leave_class c d s)"
    by (simp add: handle_leave_class_def lib_defs Let_def)
  have m: "joined_rooms (fst (handle_join_class now c d s)) c
           \<inter> {room_key (dict_get d ''class_id'')} = {room_key (dict_get d ''class_id'')}"
    by (auto simp add: joined_rooms_def handle_join_class_def lib_defs Let_def)
  show ?thesis
    unfolding j by (simp add: l m)
qed

text \<open>Scenario D of the specification: one member after two joins, none before.\<close>

theorem join_leave_idempotent_witness:
  "card (participants
      (fst (handle_join_class ''t2'' ''A'' [''class_id'' \<mapsto> PyStr ''class1'', ''user_id'' \<mapsto> PyStr ''u1'']
         (fst (handle_join_class ''t1'' ''A'' [''class_id'' \<mapsto> PyStr ''class1'', ''user_id'' \<mapsto> PyStr ''u1'']
            (run [(''t0'', ''A'', Connect)] initial)))))
      (PyStr ''class1'')) = 1
   \<and> card (participants (run [(''t0'', ''A'', Connect)] initial) (PyStr ''class1'')) = 0"
  using join_leave_idempotent [of "''t2''" "''A''"
      "[''class_id'' \<mapsto> PyStr ''class1'', ''user_id'' \<mapsto> PyStr ''u1'']" "''t1''"
      "run [(''t0'', ''A'', Connect)] initial" "PyStr ''class1''"]
  by (simp add: lib_defs handler_defs Let_def)



section \<open>Forwarding\<close>

text \<open>
  C8. \<^verbatim>\<open>handle_poll_response\<close> and \<^verbatim>\<open>handle_engagement_alert\<close> return the state they
  were given, the rooms of every session unchanged, and the \<^verbatim>\<open>total_responses\<close> and
  \<^verbatim>\<open>severity\<close> they forward are the values of the inbound event.
\<close>

theorem forwarding_is_read_only:
  "fst (handle_poll_response now c d s) = s
   \<and> fst (handle_engagement_alert now c d s) = s
   \<and> (\<forall>n. d ''total_responses'' = Some n \<longrightarrow>
         map (field ''total_responses'') (fst (snd (handle_poll_response now c d s))) = [Some n])
   \<and> (\<forall>v. d ''severity'' = Some v \<longrightarrow>
         map (field ''severity'') (fst (snd (handle_engagement_alert now c d s))) = [Some v])"
  by (simp add: handler_defs emit_def field_def Let_def)

theorem forwarding_is_read_only_witness:
  "fst (handle_poll_response ''t4'' ''A''
          [''poll_id'' \<mapsto> PyStr ''p1'', ''class_id'' \<mapsto> PyStr ''class1'', ''total_responses'' \<mapsto> PyInt 7,
           ''severity'' \<mapsto> PyStr ''high'']
          both_joined) = both_joined
   \<and> map (field ''total_responses'') (fst (snd (handle_poll_response ''t4'' ''A''
          [''poll_id'' \<mapsto> PyStr ''p1'', ''class_id'' \<mapsto> PyStr ''class1'', ''total_responses'' \<mapsto> PyInt 7,
           ''severity'' \<mapsto> PyStr ''high'']
          both_joined))) = [Some (PyInt 7)]
   \<and> map (field ''severity'') (fst (snd (handle_engagement_alert ''t4'' ''A''
          [''poll_id'' \<mapsto> PyStr ''p1'', ''class_id'' \<mapsto> PyStr ''class1'', ''total_responses'' \<mapsto> PyInt 7,
           ''severity'' \<mapsto> PyStr ''high'']
          both_joined))) = [Some (PyStr ''high'')]"
  using forwarding_is_read_only [of "''t4''" "''A''"
      "[''poll_id'' \<mapsto> PyStr ''p1'', ''class_id'' \<mapsto> PyStr ''class1'', ''total_responses'' \<mapsto> PyInt 7,
        ''severity'' \<mapsto> PyStr ''high'']" both_joined]
  by simp

text \<open>
  C10. A \<^verbatim>\<open>poll_response_submitted\<close> event without \<^verbatim>\<open>total_responses\<close> still
  produces one \<^verbatim>\<open>poll_updated\<close> envelope, with \<^verbatim>\<open>total_responses\<close> 0, addressed to
  the room of the event, or to the room \<^verbatim>\<open>None\<close> of all connected sessions when the
  \<^verbatim>\<open>class_id\<close> of the event is falsy.
\<close>

theorem poll_without_total_defaults_to_zero:
  assumes "d ''total_responses'' = None"
  shows "case handle_poll_response now c d s of (s', out, lg) \<Rightarrow>
           map event out = [''poll_updated'']
           \<and> map (field ''total_responses'') out = [Some (PyInt 0)]
           \<and> map recipients out =
               [participants s (if falsy (dict_get d ''class_id'') then PyNone
                                else dict_get d ''class_id'')]"
  using assms by (simp add: handler_defs lib_defs field_def Let_def)

theorem poll_without_total_defaults_to_zero_witness:
  "case handle_poll_response ''t4'' ''B'' [''poll_id'' \<mapsto> PyStr ''p2'', ''class_id'' \<mapsto> PyStr ''class1'']
          both_joined of
     (s', out, lg) \<Rightarrow>
        map event out = [''poll_updated'']
        \<and> map (field ''total_responses'') out = [Some (PyInt 0)]
        \<and> map recipients out = [{''A'', ''B''}]"
  using poll_without_total_defaults_to_zero [where
      d = "[''poll_id'' \<mapsto> PyStr ''p2'', ''class_id'' \<mapsto> PyStr ''class1'']"
      and now = "''t4''" and c = "''B''" and s = both_joined]
  by (simp add: both_joined_class1 dict_get_def split: prod.splits)

end
